theory Spec2Isabelle
  imports Complex_Main
begin

section \<open>Fitness tracker (homework.py): data model\<close>

text \<open>
  Numbers. The Python code computes with \<open>int\<close> and \<open>float\<close> values. A value of either
  type is a rational number and is modelled by the real number it denotes; every
  operator (\<open>*\<close>, \<open>/\<close>, \<open>+\<close>, \<open>**2\<close>, \<open><\<close>) is the exact one. The rounding of binary64
  results, infinities and NaN are not part of this reading.

  Exceptions. Every \<open>raise\<close> the modelled code can reach is a value of \<open>error\<close>, and a
  function that can raise returns \<open>error + 'a\<close> with \<open>Inl\<close> for the exception.
\<close>

datatype error =
    ZeroDivisionError
  | NotImplementedError
  | IndexError
  | KeyError
  | TypeError
  | ValueError

text \<open>
  The class hierarchy \<open>Training\<close>, \<open>Running(Training)\<close>, \<open>SportsWalking(Training)\<close>,
  \<open>Swimming(Training)\<close>: one constructor per class, carrying the arguments of its
  \<open>__init__\<close> in order.
\<close>

datatype training =
    Training real real real
  | Running real real real
  | SportsWalking real real real real
  | Swimming real real real real real

fun action :: "training \<Rightarrow> real" where
  "action (Training a d w) = a"
| "action (Running a d w) = a"
| "action (SportsWalking a d w h) = a"
| "action (Swimming a d w l c) = a"

fun duration :: "training \<Rightarrow> real" where
  "duration (Training a d w) = d"
| "duration (Running a d w) = d"
| "duration (SportsWalking a d w h) = d"
| "duration (Swimming a d w l c) = d"

fun weight :: "training \<Rightarrow> real" where
  "weight (Training a d w) = w"
| "weight (Running a d w) = w"
| "weight (SportsWalking a d w h) = w"
| "weight (Swimming a d w l c) = w"

text \<open>The name of the object's class, \<open>type(self).__name__\<close>.\<close>

fun class_name :: "training \<Rightarrow> string" where
  "class_name (Training a d w) = ''Training''"
| "class_name (Running a d w) = ''Running''"
| "class_name (SportsWalking a d w h) = ''SportsWalking''"
| "class_name (Swimming a d w l c) = ''Swimming''"

subsection \<open>Class attributes\<close>

text \<open>
  \<open>LEN_STEP\<close> is looked up on the object: \<open>Swimming\<close> redefines it (1.38), the other
  classes inherit 0.65 from \<open>Training\<close>.
\<close>

fun LEN_STEP :: "training \<Rightarrow> real" where
  "LEN_STEP (Swimming a d w l c) = 1.38"
| "LEN_STEP t = 0.65"

definition M_IN_KM :: real where
  "M_IN_KM = 1000"

definition H_IN_M :: real where
  "H_IN_M = 60"

definition Running_CALORIES_MEAN_SPEED_MULTIPLIER :: real where
  "Running_CALORIES_MEAN_SPEED_MULTIPLIER = 18"

definition Running_CALORIES_MEAN_SPEED_SHIFT :: real where
  "Running_CALORIES_MEAN_SPEED_SHIFT = 1.79"

definition CALORIES_WEIGHT_MULTIPLIER_1 :: real where
  "CALORIES_WEIGHT_MULTIPLIER_1 = 0.035"

definition CALORIES_WEIGHT_MULTIPLIER_2 :: real where
  "CALORIES_WEIGHT_MULTIPLIER_2 = 0.029"

definition KM_PER_H_IN_M_PER_S :: real where
  "KM_PER_H_IN_M_PER_S = 0.278"

definition CM_IN_M :: real where
  "CM_IN_M = 100"

definition CALORIES_MEAN_SPEED_ADDITION :: real where
  "CALORIES_MEAN_SPEED_ADDITION = 1.1"

definition Swimming_CALORIES_MEAN_SPEED_MULTIPLIER :: real where
  "Swimming_CALORIES_MEAN_SPEED_MULTIPLIER = 2"

section \<open>The methods of the training classes\<close>

text \<open>Python's \<open>x / y\<close>: \<open>ZeroDivisionError\<close> when the divisor is zero.\<close>

definition truediv :: "real \<Rightarrow> real \<Rightarrow> error + real" where
  "truediv x y = (if y = 0 then Inl ZeroDivisionError else Inr (x / y))"

text \<open>Sequencing of a computation that may raise with its continuation.\<close>

definition and_then :: "error + 'a \<Rightarrow> ('a \<Rightarrow> error + 'b) \<Rightarrow> error + 'b" where
  "and_then r f = (case r of Inl e \<Rightarrow> Inl e | Inr v \<Rightarrow> f v)"

text \<open>\<open>Training.get_distance\<close>, inherited by every class.\<close>

definition get_distance :: "training \<Rightarrow> real" where
  "get_distance t = action t * LEN_STEP t / M_IN_KM"

text \<open>\<open>Training.get_mean_speed\<close>, overridden by \<open>Swimming.get_mean_speed\<close>.\<close>

fun get_mean_speed :: "training \<Rightarrow> error + real" where
  "get_mean_speed (Swimming a d w length_pool count_pool) =
     truediv (length_pool * count_pool / M_IN_KM) d"
| "get_mean_speed t = truediv (get_distance t) (duration t)"

text \<open>
  \<open>get_spent_calories\<close>: the base method raises, each subclass has its own formula.
  In \<open>SportsWalking\<close> the mean speed is computed before the division by
  \<open>height / CM_IN_M\<close>.
\<close>

fun get_spent_calories :: "training \<Rightarrow> error + real" where
  "get_spent_calories (Training a d w) = Inl NotImplementedError"
| "get_spent_calories (Running a d w) =
     and_then (get_mean_speed (Running a d w)) (\<lambda>speed.
       Inr ((Running_CALORIES_MEAN_SPEED_MULTIPLIER * speed
             + Running_CALORIES_MEAN_SPEED_SHIFT) * w / M_IN_KM
            * d * H_IN_M))"
| "get_spent_calories (SportsWalking a d w height) =
     and_then (get_mean_speed (SportsWalking a d w height)) (\<lambda>speed.
     and_then (truediv ((speed * KM_PER_H_IN_M_PER_S)\<^sup>2) (height / CM_IN_M)) (\<lambda>q.
       Inr ((CALORIES_WEIGHT_MULTIPLIER_1 * w
             + q * CALORIES_WEIGHT_MULTIPLIER_2 * w)
            * d * H_IN_M)))"
| "get_spent_calories (Swimming a d w length_pool count_pool) =
     and_then (get_mean_speed (Swimming a d w length_pool count_pool)) (\<lambda>speed.
       Inr ((speed + CALORIES_MEAN_SPEED_ADDITION)
            * Swimming_CALORIES_MEAN_SPEED_MULTIPLIER * w * d))"

section \<open>Reading a package\<close>

text \<open>
  The dictionary \<open>workouts\<close> maps a code to a class; \<open>read_package\<close> calls the class on
  the unpacked list: \<open>KeyError\<close> for a code that is not a key, \<open>TypeError\<close> when the
  number of arguments is not the one \<open>__init__\<close> takes.
\<close>

datatype workout_class = Swimming_class | Running_class | SportsWalking_class

definition workouts :: "string \<rightharpoonup> workout_class" where
  "workouts = [''SWM'' \<mapsto> Swimming_class, ''RUN'' \<mapsto> Running_class,
               ''WLK'' \<mapsto> SportsWalking_class]"

fun construct :: "workout_class \<Rightarrow> real list \<Rightarrow> error + training" where
  "construct Swimming_class [a, d, w, l, c] = Inr (Swimming a d w l c)"
| "construct Running_class [a, d, w] = Inr (Running a d w)"
| "construct SportsWalking_class [a, d, w, h] = Inr (SportsWalking a d w h)"
| "construct cls data = Inl TypeError"

definition read_package :: "string \<Rightarrow> real list \<Rightarrow> error + training" where
  "read_package workout_type data =
     (case workouts workout_type of
        None \<Rightarrow> Inl KeyError
      | Some cls \<Rightarrow> construct cls data)"

section \<open>Validation of a package\<close>

text \<open>
  Strings are byte lists: a Python \<open>str\<close> is modelled by its UTF-8 encoding, so the
  Cyrillic letters of the messages are two bytes each. The messages returned by
  \<open>check_data\<close> read, transliterated: "Nekorrektnoe kolichestvo argumentov." (wrong
  number of arguments), "Neverno ukazannyi ves." (wrong weight), "Neverno ukazana dlina
  basseina. Neobkhodimo ukazat dlinu v m." (wrong pool length), "Neverno ukazan rost.
  Neobkhodimo ukazat rost v sm." (wrong height), "Neverno ukazan shifr trenirovki."
  (wrong workout code).
\<close>

definition msg_argument_count :: string where
  "msg_argument_count =
     [CHR 0xD0, CHR 0x9D, CHR 0xD0, CHR 0xB5, CHR 0xD0, CHR 0xBA, CHR 0xD0, CHR 0xBE,
        CHR 0xD1, CHR 0x80, CHR 0xD1, CHR 0x80, CHR 0xD0, CHR 0xB5, CHR 0xD0, CHR 0xBA,
        CHR 0xD1, CHR 0x82, CHR 0xD0, CHR 0xBD, CHR 0xD0, CHR 0xBE, CHR 0xD0, CHR 0xB5]
     @ '' ''
     @ [CHR 0xD0, CHR 0xBA, CHR 0xD0, CHR 0xBE, CHR 0xD0, CHR 0xBB, CHR 0xD0, CHR 0xB8,
        CHR 0xD1, CHR 0x87, CHR 0xD0, CHR 0xB5, CHR 0xD1, CHR 0x81, CHR 0xD1, CHR 0x82,
        CHR 0xD0, CHR 0xB2, CHR 0xD0, CHR 0xBE]
     @ '' ''
     @ [CHR 0xD0, CHR 0xB0, CHR 0xD1, CHR 0x80, CHR 0xD0, CHR 0xB3, CHR 0xD1, CHR 0x83,
        CHR 0xD0, CHR 0xBC, CHR 0xD0, CHR 0xB5, CHR 0xD0, CHR 0xBD, CHR 0xD1, CHR 0x82,
        CHR 0xD0, CHR 0xBE, CHR 0xD0, CHR 0xB2]
     @ ''.''"

definition msg_weight :: string where
  "msg_weight =
     [CHR 0xD0, CHR 0x9D, CHR 0xD0, CHR 0xB5, CHR 0xD0, CHR 0xB2, CHR 0xD0, CHR 0xB5,
        CHR 0xD1, CHR 0x80, CHR 0xD0, CHR 0xBD, CHR 0xD0, CHR 0xBE]
     @ '' ''
     @ [CHR 0xD1, CHR 0x83, CHR 0xD0, CHR 0xBA, CHR 0xD0, CHR 0xB0, CHR 0xD0, CHR 0xB7,
        CHR 0xD0, CHR 0xB0, CHR 0xD0, CHR 0xBD, CHR 0xD0, CHR 0xBD, CHR 0xD1, CHR 0x8B,
        CHR 0xD0, CHR 0xB9]
     @ '' ''
     @ [CHR 0xD0, CHR 0xB2, CHR 0xD0, CHR 0xB5, CHR 0xD1, CHR 0x81]
     @ ''.''"

definition msg_pool_length :: string where
  "msg_pool_length =
     [CHR 0xD0, CHR 0x9D, CHR 0xD0, CHR 0xB5, CHR 0xD0, CHR 0xB2, CHR 0xD0, CHR 0xB5,
        CHR 0xD1, CHR 0x80, CHR 0xD0, CHR 0xBD, CHR 0xD0, CHR 0xBE]
     @ '' ''
     @ [CHR 0xD1, CHR 0x83, CHR 0xD0, CHR 0xBA, CHR 0xD0, CHR 0xB0, CHR 0xD0, CHR 0xB7,
        CHR 0xD0, CHR 0xB0, CHR 0xD0, CHR 0xBD, CHR 0xD0, CHR 0xB0]
     @ '' ''
     @ [CHR 0xD0, CHR 0xB4, CHR 0xD0, CHR 0xBB, CHR 0xD0, CHR 0xB8, CHR 0xD0, CHR 0xBD,
        CHR 0xD0, CHR 0xB0]
     @ '' ''
     @ [CHR 0xD0, CHR 0xB1, CHR 0xD0, CHR 0xB0, CHR 0xD1, CHR 0x81, CHR 0xD1, CHR 0x81,
        CHR 0xD0, CHR 0xB5, CHR 0xD0, CHR 0xB9, CHR 0xD0, CHR 0xBD, CHR 0xD0, CHR 0xB0]
     @ ''. ''
     @ [CHR 0xD0, CHR 0x9D, CHR 0xD0, CHR 0xB5, CHR 0xD0, CHR 0xBE, CHR 0xD0, CHR 0xB1,
        CHR 0xD1, CHR 0x85, CHR 0xD0, CHR 0xBE, CHR 0xD0, CHR 0xB4, CHR 0xD0, CHR 0xB8,
        CHR 0xD0, CHR 0xBC, CHR 0xD0, CHR 0xBE]
     @ '' ''
     @ [CHR 0xD1, CHR 0x83, CHR 0xD0, CHR 0xBA, CHR 0xD0, CHR 0xB0, CHR 0xD0, CHR 0xB7,
        CHR 0xD0, CHR 0xB0, CHR 0xD1, CHR 0x82, CHR 0xD1, CHR 0x8C]
     @ '' ''
     @ [CHR 0xD0, CHR 0xB4, CHR 0xD0, CHR 0xBB, CHR 0xD0, CHR 0xB8, CHR 0xD0, CHR 0xBD,
        CHR 0xD1, CHR 0x83]
     @ '' ''
     @ [CHR 0xD0, CHR 0xB2]
     @ '' ''
     @ [CHR 0xD0, CHR 0xBC]
     @ ''.''"

definition msg_height :: string where
  "msg_height =
     [CHR 0xD0, CHR 0x9D, CHR 0xD0, CHR 0xB5, CHR 0xD0, CHR 0xB2, CHR 0xD0, CHR 0xB5,
        CHR 0xD1, CHR 0x80, CHR 0xD0, CHR 0xBD, CHR 0xD0, CHR 0xBE]
     @ '' ''
     @ [CHR 0xD1, CHR 0x83, CHR 0xD0, CHR 0xBA, CHR 0xD0, CHR 0xB0, CHR 0xD0, CHR 0xB7,
        CHR 0xD0, CHR 0xB0, CHR 0xD0, CHR 0xBD]
     @ '' ''
     @ [CHR 0xD1, CHR 0x80, CHR 0xD0, CHR 0xBE, CHR 0xD1, CHR 0x81, CHR 0xD1, CHR 0x82]
     @ ''. ''
     @ [CHR 0xD0, CHR 0x9D, CHR 0xD0, CHR 0xB5, CHR 0xD0, CHR 0xBE, CHR 0xD0, CHR 0xB1,
        CHR 0xD1, CHR 0x85, CHR 0xD0, CHR 0xBE, CHR 0xD0, CHR 0xB4, CHR 0xD0, CHR 0xB8,
        CHR 0xD0, CHR 0xBC, CHR 0xD0, CHR 0xBE]
     @ '' ''
     @ [CHR 0xD1, CHR 0x83, CHR 0xD0, CHR 0xBA, CHR 0xD0, CHR 0xB0, CHR 0xD0, CHR 0xB7,
        CHR 0xD0, CHR 0xB0, CHR 0xD1, CHR 0x82, CHR 0xD1, CHR 0x8C]
     @ '' ''
     @ [CHR 0xD1, CHR 0x80, CHR 0xD0, CHR 0xBE, CHR 0xD1, CHR 0x81, CHR 0xD1, CHR 0x82]
     @ '' ''
     @ [CHR 0xD0, CHR 0xB2]
     @ '' ''
     @ [CHR 0xD1, CHR 0x81, CHR 0xD0, CHR 0xBC]
     @ ''.''"

definition msg_workout_code :: string where
  "msg_workout_code =
     [CHR 0xD0, CHR 0x9D, CHR 0xD0, CHR 0xB5, CHR 0xD0, CHR 0xB2, CHR 0xD0, CHR 0xB5,
        CHR 0xD1, CHR 0x80, CHR 0xD0, CHR 0xBD, CHR 0xD0, CHR 0xBE]
     @ '' ''
     @ [CHR 0xD1, CHR 0x83, CHR 0xD0, CHR 0xBA, CHR 0xD0, CHR 0xB0, CHR 0xD0, CHR 0xB7,
        CHR 0xD0, CHR 0xB0, CHR 0xD0, CHR 0xBD]
     @ '' ''
     @ [CHR 0xD1, CHR 0x88, CHR 0xD0, CHR 0xB8, CHR 0xD1, CHR 0x84, CHR 0xD1, CHR 0x80]
     @ '' ''
     @ [CHR 0xD1, CHR 0x82, CHR 0xD1, CHR 0x80, CHR 0xD0, CHR 0xB5, CHR 0xD0, CHR 0xBD,
        CHR 0xD0, CHR 0xB8, CHR 0xD1, CHR 0x80, CHR 0xD0, CHR 0xBE, CHR 0xD0, CHR 0xB2,
        CHR 0xD0, CHR 0xBA, CHR 0xD0, CHR 0xB8]
     @ ''.''"

text \<open>Python's \<open>data[i]\<close> for a literal index \<open>i \<ge> 0\<close>: out of range raises.\<close>

definition getitem :: "'a list \<Rightarrow> nat \<Rightarrow> error + 'a" where
  "getitem xs i = (if i < length xs then Inr (xs ! i) else Inl IndexError)"

text \<open>
  \<open>check_data\<close>: the \<open>if\<close>/\<open>elif\<close> chain in the order of the source. A condition is
  evaluated only when all the conditions before it were false, and \<open>and\<close> evaluates
  its right operand only when the left one is true; \<open>data[2]\<close> and \<open>data[3]\<close> raise
  \<open>IndexError\<close> when the list is too short. The result is the value of \<open>result\<close>:
  \<open>None\<close> or a message.
\<close>

definition check_data :: "string \<Rightarrow> real list \<Rightarrow> error + string option" where
  "check_data workout_type data =
     (if workout_type = ''SWM'' \<and> length data \<noteq> 5 then Inr (Some msg_argument_count)
      else if workout_type = ''RUN'' \<and> length data \<noteq> 3 then Inr (Some msg_argument_count)
      else if workout_type = ''WLK'' \<and> length data \<noteq> 4 then Inr (Some msg_argument_count)
      else and_then (getitem data 2) (\<lambda>w.
        if \<not> (35 < w \<and> w < 610) then Inr (Some msg_weight)
        else and_then
          (if workout_type = ''SWM''
           then and_then (getitem data 3) (\<lambda>l. Inr (\<not> (1 < l \<and> l < 1013)))
           else Inr False) (\<lambda>bad_pool.
        if bad_pool then Inr (Some msg_pool_length)
        else and_then
          (if workout_type = ''WLK''
           then and_then (getitem data 3) (\<lambda>h. Inr (\<not> (50 < h \<and> h < 251)))
           else Inr False) (\<lambda>bad_height.
        if bad_height then Inr (Some msg_height)
        else if workouts workout_type = None then Inr (Some msg_workout_code)
        else Inr None))))"

subsection \<open>The validator as the specification words it\<close>

text \<open>
  The specification lists five checks in order of precedence, the first failing check
  giving the result: (1) arity of a recognised code, (2) weight range at position 2, for
  every code, (3) pool length at position 3 for \<open>SWM\<close>, (4) height at position 3 for
  \<open>WLK\<close>, (5) unknown code. \<open>validate\<close> runs such a list of checks from left to
  right and stops at the first one that fails or raises.
\<close>

datatype validation_check =
    Arity
  | Weight_range
  | Pool_length
  | Walking_height
  | Unknown_code

fun check_fails :: "validation_check \<Rightarrow> string \<Rightarrow> real list \<Rightarrow> error + bool" where
  "check_fails Arity code args =
     Inr (code = ''SWM'' \<and> length args \<noteq> 5
          \<or> code = ''RUN'' \<and> length args \<noteq> 3
          \<or> code = ''WLK'' \<and> length args \<noteq> 4)"
| "check_fails Weight_range code args =
     and_then (getitem args 2) (\<lambda>weight_kg. Inr (\<not> (35 < weight_kg \<and> weight_kg < 610)))"
| "check_fails Pool_length code args =
     (if code = ''SWM''
      then and_then (getitem args 3) (\<lambda>pool_length_m.
             Inr (\<not> (1 < pool_length_m \<and> pool_length_m < 1013)))
      else Inr False)"
| "check_fails Walking_height code args =
     (if code = ''WLK''
      then and_then (getitem args 3) (\<lambda>height_cm. Inr (\<not> (50 < height_cm \<and> height_cm < 251)))
      else Inr False)"
| "check_fails Unknown_code code args =
     Inr (code \<noteq> ''SWM'' \<and> code \<noteq> ''RUN'' \<and> code \<noteq> ''WLK'')"

fun check_message :: "validation_check \<Rightarrow> string" where
  "check_message Arity = msg_argument_count"
| "check_message Weight_range = msg_weight"
| "check_message Pool_length = msg_pool_length"
| "check_message Walking_height = msg_height"
| "check_message Unknown_code = msg_workout_code"

fun first_failing ::
  "validation_check list \<Rightarrow> string \<Rightarrow> real list \<Rightarrow> error + string option" where
  "first_failing [] code args = Inr None"
| "first_failing (c # cs) code args =
     and_then (check_fails c code args) (\<lambda>fails.
       if fails then Inr (Some (check_message c)) else first_failing cs code args)"

definition validate :: "string \<Rightarrow> real list \<Rightarrow> error + string option" where
  "validate code args =
     first_failing [Arity, Weight_range, Pool_length, Walking_height, Unknown_code] code args"

section \<open>The info message\<close>

text \<open>
  The dataclass \<open>InfoMessage\<close>. Its field \<open>duration\<close> is named \<open>info_duration\<close> here, the name
  \<open>duration\<close> being taken by the attribute of the training classes.
\<close>

record InfoMessage =
  training_type :: string
  info_duration :: real
  distance :: real
  speed :: real
  calories :: real

text \<open>
  \<open>format(x, '.3f')\<close> of a number: the sign, the integer digits, a point and three
  decimals of the value rounded to the nearest multiple of 0.001, a tie going to the even
  neighbour. A negative value keeps its sign when it rounds to zero.
\<close>

definition round_half_even :: "real \<Rightarrow> int" where
  "round_half_even x =
     (let f = \<lfloor>x\<rfloor>; r = x - of_int f
      in if r < 1 / 2 then f else if 1 / 2 < r then f + 1 else if even f then f else f + 1)"

definition digit_char :: "nat \<Rightarrow> char" where
  "digit_char n = ''0123456789'' ! n"

fun digits :: "nat \<Rightarrow> string" where
  "digits n = (if n < 10 then [digit_char n] else digits (n div 10) @ [digit_char (n mod 10)])"

definition format_3f :: "real \<Rightarrow> string" where
  "format_3f x =
     (let n = nat (round_half_even (\<bar>x\<bar> * 1000))
      in (if x < 0 then ''-'' else [])
         @ digits (n div 1000) @ ''.''
         @ [digit_char (n div 100 mod 10), digit_char (n div 10 mod 10), digit_char (n mod 10)])"

text \<open>
  \<open>str.format\<close> with keyword arguments, for the replacement fields the template uses:
  \<open>{name}\<close> and \<open>{name:spec}\<close>. The template is cut into literal text and fields;
  a field is looked up by name among the arguments (\<open>KeyError\<close> when absent) and
  formatted by its spec: the empty spec gives a string as it is, \<open>.3f\<close> formats a
  number and is refused for a string (\<open>ValueError\<close>), as are an unmatched brace and
  every spec the template does not use. Doubled braces are not treated as escapes; the
  template has none.
\<close>

datatype piece = Literal string | Field string

datatype format_arg = Str string | Num real

fun parse_format :: "string \<Rightarrow> string option \<Rightarrow> string \<Rightarrow> error + piece list" where
  "parse_format [] None lit = Inr [Literal (rev lit)]"
| "parse_format [] (Some fld) lit = Inl ValueError"
| "parse_format (c # cs) None lit =
     (if c = CHR ''{''
      then and_then (parse_format cs (Some []) []) (\<lambda>ps. Inr (Literal (rev lit) # ps))
      else if c = CHR ''}'' then Inl ValueError
      else parse_format cs None (c # lit))"
| "parse_format (c # cs) (Some fld) lit =
     (if c = CHR ''}''
      then and_then (parse_format cs None []) (\<lambda>ps. Inr (Field (rev fld) # ps))
      else parse_format cs (Some (c # fld)) lit)"

definition field_name :: "string \<Rightarrow> string" where
  "field_name fld = takeWhile (\<lambda>c. c \<noteq> CHR '':'') fld"

definition field_spec :: "string \<Rightarrow> string" where
  "field_spec fld = drop 1 (dropWhile (\<lambda>c. c \<noteq> CHR '':'') fld)"

definition format_value :: "format_arg \<Rightarrow> string \<Rightarrow> error + string" where
  "format_value v spec =
     (case v of
        Str s \<Rightarrow> if spec = [] then Inr s else Inl ValueError
      | Num x \<Rightarrow> if spec = ''.3f'' then Inr (format_3f x) else Inl ValueError)"

fun render :: "piece list \<Rightarrow> (string \<rightharpoonup> format_arg) \<Rightarrow> error + string" where
  "render [] kwargs = Inr []"
| "render (Literal s # ps) kwargs = and_then (render ps kwargs) (\<lambda>rest. Inr (s @ rest))"
| "render (Field fld # ps) kwargs =
     (case kwargs (field_name fld) of
        None \<Rightarrow> Inl KeyError
      | Some v \<Rightarrow>
          and_then (format_value v (field_spec fld)) (\<lambda>s.
          and_then (render ps kwargs) (\<lambda>rest. Inr (s @ rest))))"

definition str_format :: "string \<Rightarrow> (string \<rightharpoonup> format_arg) \<Rightarrow> error + string" where
  "str_format template kwargs =
     and_then (parse_format template None []) (\<lambda>ps. render ps kwargs)"

text \<open>\<open>dataclasses.asdict\<close> of an \<open>InfoMessage\<close>: its fields by name.\<close>

definition asdict :: "InfoMessage \<Rightarrow> (string \<rightharpoonup> format_arg)" where
  "asdict m =
     [''training_type'' \<mapsto> Str (training_type m),
      ''duration'' \<mapsto> Num (info_duration m),
      ''distance'' \<mapsto> Num (distance m),
      ''speed'' \<mapsto> Num (speed m),
      ''calories'' \<mapsto> Num (calories m)]"

text \<open>
  The template of \<open>get_message\<close>, one string literal in the source. Transliterated:
  "Tip trenirovki: {training_type}; Dlitelnost: {duration:.3f} ch.; Distantsiya:
  {distance:.3f} km; Sr. skorost: {speed:.3f} km/ch; Potracheno kkal: {calories:.3f}."
\<close>

definition message_template :: string where
  "message_template =
     [CHR 0xD0, CHR 0xA2, CHR 0xD0, CHR 0xB8, CHR 0xD0, CHR 0xBF]
     @ '' ''
     @ [CHR 0xD1, CHR 0x82, CHR 0xD1, CHR 0x80, CHR 0xD0, CHR 0xB5, CHR 0xD0, CHR 0xBD,
        CHR 0xD0, CHR 0xB8, CHR 0xD1, CHR 0x80, CHR 0xD0, CHR 0xBE, CHR 0xD0, CHR 0xB2,
        CHR 0xD0, CHR 0xBA, CHR 0xD0, CHR 0xB8]
     @ '': {training_type}; ''
     @ [CHR 0xD0, CHR 0x94, CHR 0xD0, CHR 0xBB, CHR 0xD0, CHR 0xB8, CHR 0xD1, CHR 0x82,
        CHR 0xD0, CHR 0xB5, CHR 0xD0, CHR 0xBB, CHR 0xD1, CHR 0x8C, CHR 0xD0, CHR 0xBD,
        CHR 0xD0, CHR 0xBE, CHR 0xD1, CHR 0x81, CHR 0xD1, CHR 0x82, CHR 0xD1, CHR 0x8C]
     @ '': {duration:.3f} ''
     @ [CHR 0xD1, CHR 0x87]
     @ ''.; ''
     @ [CHR 0xD0, CHR 0x94, CHR 0xD0, CHR 0xB8, CHR 0xD1, CHR 0x81, CHR 0xD1, CHR 0x82,
        CHR 0xD0, CHR 0xB0, CHR 0xD0, CHR 0xBD, CHR 0xD1, CHR 0x86, CHR 0xD0, CHR 0xB8,
        CHR 0xD1, CHR 0x8F]
     @ '': {distance:.3f} ''
     @ [CHR 0xD0, CHR 0xBA, CHR 0xD0, CHR 0xBC]
     @ ''; ''
     @ [CHR 0xD0, CHR 0xA1, CHR 0xD1, CHR 0x80]
     @ ''. ''
     @ [CHR 0xD1, CHR 0x81, CHR 0xD0, CHR 0xBA, CHR 0xD0, CHR 0xBE, CHR 0xD1, CHR 0x80,
        CHR 0xD0, CHR 0xBE, CHR 0xD1, CHR 0x81, CHR 0xD1, CHR 0x82, CHR 0xD1, CHR 0x8C]
     @ '': {speed:.3f} ''
     @ [CHR 0xD0, CHR 0xBA, CHR 0xD0, CHR 0xBC]
     @ ''/''
     @ [CHR 0xD1, CHR 0x87]
     @ ''; ''
     @ [CHR 0xD0, CHR 0x9F, CHR 0xD0, CHR 0xBE, CHR 0xD1, CHR 0x82, CHR 0xD1, CHR 0x80,
        CHR 0xD0, CHR 0xB0, CHR 0xD1, CHR 0x87, CHR 0xD0, CHR 0xB5, CHR 0xD0, CHR 0xBD,
        CHR 0xD0, CHR 0xBE]
     @ '' ''
     @ [CHR 0xD0, CHR 0xBA, CHR 0xD0, CHR 0xBA, CHR 0xD0, CHR 0xB0, CHR 0xD0, CHR 0xBB]
     @ '': {calories:.3f}.''"

definition get_message :: "InfoMessage \<Rightarrow> error + string" where
  "get_message m = str_format message_template (asdict m)"

text \<open>
  \<open>show_training_info\<close> evaluates the arguments of \<open>InfoMessage\<close> from left to right;
  \<open>main\<close> prints the message, and the model returns the printed line.
\<close>

definition show_training_info :: "training \<Rightarrow> error + InfoMessage" where
  "show_training_info t =
     and_then (get_mean_speed t) (\<lambda>s.
     and_then (get_spent_calories t) (\<lambda>c.
       Inr \<lparr>training_type = class_name t, info_duration = duration t,
            distance = get_distance t, speed = s, calories = c\<rparr>))"

definition main :: "training \<Rightarrow> error + string" where
  "main t = and_then (show_training_info t) get_message"

subsection \<open>The shape of the printed line\<close>

text \<open>
  The fixed text of the line between the fields, spelled out on its own so that the
  result of \<open>get_message\<close> can be compared with it: "Tip trenirovki: ", "; Dlitelnost: ",
  " ch.; Distantsiya: ", " km; Sr. skorost: ", " km/ch; Potracheno kkal: ".
\<close>

definition text_type :: string where
  "text_type =
     [CHR 0xD0, CHR 0xA2, CHR 0xD0, CHR 0xB8, CHR 0xD0, CHR 0xBF]
     @ '' ''
     @ [CHR 0xD1, CHR 0x82, CHR 0xD1, CHR 0x80, CHR 0xD0, CHR 0xB5, CHR 0xD0, CHR 0xBD,
        CHR 0xD0, CHR 0xB8, CHR 0xD1, CHR 0x80, CHR 0xD0, CHR 0xBE, CHR 0xD0, CHR 0xB2,
        CHR 0xD0, CHR 0xBA, CHR 0xD0, CHR 0xB8]
     @ '': ''"

definition text_duration :: string where
  "text_duration =
     ''; ''
     @ [CHR 0xD0, CHR 0x94, CHR 0xD0, CHR 0xBB, CHR 0xD0, CHR 0xB8, CHR 0xD1, CHR 0x82,
        CHR 0xD0, CHR 0xB5, CHR 0xD0, CHR 0xBB, CHR 0xD1, CHR 0x8C, CHR 0xD0, CHR 0xBD,
        CHR 0xD0, CHR 0xBE, CHR 0xD1, CHR 0x81, CHR 0xD1, CHR 0x82, CHR 0xD1, CHR 0x8C]
     @ '': ''"

definition text_distance :: string where
  "text_distance =
     '' ''
     @ [CHR 0xD1, CHR 0x87]
     @ ''.; ''
     @ [CHR 0xD0, CHR 0x94, CHR 0xD0, CHR 0xB8, CHR 0xD1, CHR 0x81, CHR 0xD1, CHR 0x82,
        CHR 0xD0, CHR 0xB0, CHR 0xD0, CHR 0xBD, CHR 0xD1, CHR 0x86, CHR 0xD0, CHR 0xB8,
        CHR 0xD1, CHR 0x8F]
     @ '': ''"

definition text_speed :: string where
  "text_speed =
     '' ''
     @ [CHR 0xD0, CHR 0xBA, CHR 0xD0, CHR 0xBC]
     @ ''; ''
     @ [CHR 0xD0, CHR 0xA1, CHR 0xD1, CHR 0x80]
     @ ''. ''
     @ [CHR 0xD1, CHR 0x81, CHR 0xD0, CHR 0xBA, CHR 0xD0, CHR 0xBE, CHR 0xD1, CHR 0x80,
        CHR 0xD0, CHR 0xBE, CHR 0xD1, CHR 0x81, CHR 0xD1, CHR 0x82, CHR 0xD1, CHR 0x8C]
     @ '': ''"

definition text_calories :: string where
  "text_calories =
     '' ''
     @ [CHR 0xD0, CHR 0xBA, CHR 0xD0, CHR 0xBC]
     @ ''/''
     @ [CHR 0xD1, CHR 0x87]
     @ ''; ''
     @ [CHR 0xD0, CHR 0x9F, CHR 0xD0, CHR 0xBE, CHR 0xD1, CHR 0x82, CHR 0xD1, CHR 0x80,
        CHR 0xD0, CHR 0xB0, CHR 0xD1, CHR 0x87, CHR 0xD0, CHR 0xB5, CHR 0xD0, CHR 0xBD,
        CHR 0xD0, CHR 0xBE]
     @ '' ''
     @ [CHR 0xD0, CHR 0xBA, CHR 0xD0, CHR 0xBA, CHR 0xD0, CHR 0xB0, CHR 0xD0, CHR 0xBB]
     @ '': ''"

text \<open>
  A rendering with exactly three decimals: an optional minus sign, at least one digit, a
  point, three digits.
\<close>

definition is_digit :: "char \<Rightarrow> bool" where
  "is_digit c = (c \<in> set ''0123456789'')"

definition three_decimals :: "string \<Rightarrow> bool" where
  "three_decimals s =
     (let body = (case s of [] \<Rightarrow> [] | c # cs \<Rightarrow> if c = CHR ''-'' then cs else s);
          k = length body - 4
      in 5 \<le> length body
         \<and> list_all is_digit (take k body)
         \<and> body ! k = CHR ''.''
         \<and> list_all is_digit (drop (k + 1) body))"

text \<open>
  The line as the specification words it, with English labels: "Workout type:
  {variant_name}; Duration: {duration_hours:.3f} h; Distance: {distance_km:.3f} km; Mean
  speed: {mean_speed_kmh:.3f} km/h; Calories spent: {calories:.3f}."
\<close>

definition spec_line :: "InfoMessage \<Rightarrow> string" where
  "spec_line m =
     ''Workout type: '' @ training_type m
     @ ''; Duration: '' @ format_3f (info_duration m)
     @ '' h; Distance: '' @ format_3f (distance m)
     @ '' km; Mean speed: '' @ format_3f (speed m)
     @ '' km/h; Calories spent: '' @ format_3f (calories m) @ ''.''"

section \<open>Distance and speed formulas\<close>

text \<open>
  C1. For a \<open>Running\<close> or \<open>SportsWalking\<close> object built with action count \<open>a\<close> and a
  duration \<open>d > 0\<close>, \<open>get_distance\<close> returns \<open>a * 0.65 / 1000\<close> and \<open>get_mean_speed\<close>
  returns that distance divided by \<open>d\<close>.
\<close>

theorem C1_distance_and_mean_speed:
  assumes "0 < d"
  shows "get_distance (Running a d w) = a * 0.65 / 1000
       \<and> get_mean_speed (Running a d w) = Inr (get_distance (Running a d w) / d)
       \<and> get_distance (SportsWalking a d w h) = a * 0.65 / 1000
       \<and> get_mean_speed (SportsWalking a d w h)
           = Inr (get_distance (SportsWalking a d w h) / d)"
  using assms by (simp add: get_distance_def truediv_def M_IN_KM_def)

theorem C1_distance_and_mean_speed_witness:
  "(0::real) < 2
   \<and> get_distance (Running 4000 2 60) = 2.6
   \<and> get_mean_speed (Running 4000 2 60) = Inr 1.3
   \<and> get_distance (SportsWalking 4000 2 60 165) = 2.6
   \<and> get_mean_speed (SportsWalking 4000 2 60 165) = Inr 1.3"
  using C1_distance_and_mean_speed [of 2 4000 60 165] by simp

text \<open>
  C2. For a \<open>Swimming\<close> object with duration \<open>d > 0\<close>, pool length \<open>L\<close> and \<open>n\<close> pool
  crossings, \<open>get_mean_speed\<close> returns \<open>L * n / 1000 / d\<close>, whatever the stroke count
  is.
\<close>

theorem C2_swimming_mean_speed:
  assumes "0 < d"
  shows "get_mean_speed (Swimming a d w L n) = Inr (L * n / 1000 / d)
       \<and> get_mean_speed (Swimming a' d w L n) = get_mean_speed (Swimming a d w L n)"
  using assms by (simp add: truediv_def M_IN_KM_def)

theorem C2_swimming_mean_speed_witness:
  "(0::real) < 2
   \<and> get_mean_speed (Swimming 720 2 80 25 40) = Inr 0.5
   \<and> get_mean_speed (Swimming 0 2 80 25 40) = get_mean_speed (Swimming 720 2 80 25 40)"
  using C2_swimming_mean_speed [of 2 720 80 25 40 0] by simp

section \<open>Calorie formulas\<close>

text \<open>
  C3. For a \<open>Running\<close> object with duration \<open>d > 0\<close> and weight \<open>w\<close>,
  \<open>get_mean_speed\<close> returns a speed \<open>s\<close> and \<open>get_spent_calories\<close> returns
  \<open>(18 * s + 1.79) * w / 1000 * d * 60\<close>. The package \<open>('RUN', [15000, 1, 75])\<close> is
  read as \<open>Running(15000, 1, 75)\<close>; its distance is 9.75, its mean speed is 9.75 and its
  calories are \<open>(18 * 9.75 + 1.79) * 75 / 1000 * 1 * 60\<close>, which is 797.805.
\<close>

theorem C3_running_calories:
  assumes "0 < d"
  shows "(\<exists>s. get_mean_speed (Running a d w) = Inr s
            \<and> get_spent_calories (Running a d w)
                = Inr ((18 * s + 1.79) * w / 1000 * d * 60))
       \<and> read_package ''RUN'' [15000, 1, 75] = Inr (Running 15000 1 75)
       \<and> get_distance (Running 15000 1 75) = 9.75
       \<and> get_mean_speed (Running 15000 1 75) = Inr 9.75
       \<and> get_spent_calories (Running 15000 1 75)
           = Inr ((18 * 9.75 + 1.79) * 75 / 1000 * 1 * 60)
       \<and> (18 * 9.75 + 1.79) * 75 / 1000 * 1 * 60 = (797.805 :: real)"
proof -
  have general: "\<exists>s. get_mean_speed (Running a d w) = Inr s
            \<and> get_spent_calories (Running a d w)
                = Inr ((18 * s + 1.79) * w / 1000 * d * 60)"
    using assms
    by (simp add: truediv_def and_then_def M_IN_KM_def H_IN_M_def
        Running_CALORIES_MEAN_SPEED_MULTIPLIER_def Running_CALORIES_MEAN_SPEED_SHIFT_def)
  have package: "read_package ''RUN'' [15000, 1, 75] = Inr (Running 15000 1 75)"
    by (simp add: read_package_def workouts_def)
  have distance: "get_distance (Running 15000 1 75) = 9.75"
    by (simp add: get_distance_def M_IN_KM_def)
  have speed: "get_mean_speed (Running 15000 1 75) = Inr 9.75"
    by (simp add: get_distance_def truediv_def M_IN_KM_def)
  have calories: "get_spent_calories (Running 15000 1 75)
           = Inr ((18 * 9.75 + 1.79) * 75 / 1000 * 1 * 60)"
    by (simp add: get_distance_def truediv_def and_then_def M_IN_KM_def H_IN_M_def
        Running_CALORIES_MEAN_SPEED_MULTIPLIER_def Running_CALORIES_MEAN_SPEED_SHIFT_def)
  have "value": "(18 * 9.75 + 1.79) * 75 / 1000 * 1 * 60 = (797.805 :: real)"
    by simp
  from general package distance speed calories "value" show ?thesis
    by (intro conjI)
qed

theorem C3_running_calories_witness:
  "(0::real) < 2
   \<and> get_mean_speed (Running 4000 2 60) = Inr 1.3
   \<and> get_spent_calories (Running 4000 2 60) = Inr ((18 * 1.3 + 1.79) * 60 / 1000 * 2 * 60)"
  using C3_running_calories [of 2 4000 60]
  by (simp add: get_distance_def truediv_def and_then_def M_IN_KM_def H_IN_M_def
      Running_CALORIES_MEAN_SPEED_MULTIPLIER_def Running_CALORIES_MEAN_SPEED_SHIFT_def)

text \<open>
  C4. For a \<open>SportsWalking\<close> object with duration \<open>d > 0\<close>, weight \<open>w\<close> and height
  \<open>h > 0\<close> (in cm), \<open>get_mean_speed\<close> returns the speed \<open>s\<close> of the step-length formula
  (distance \<open>a * 0.65 / 1000\<close> divided by \<open>d\<close>) and \<open>get_spent_calories\<close> returns
  \<open>(0.035 * w + (s * 0.278)\<^sup>2 / (h / 100) * 0.029 * w) * d * 60\<close>.
\<close>

theorem C4_walking_calories:
  assumes "0 < d" and "0 < h"
  shows "get_mean_speed (SportsWalking a d w h) = Inr (a * 0.65 / 1000 / d)
       \<and> (\<exists>s. get_mean_speed (SportsWalking a d w h) = Inr s
            \<and> get_spent_calories (SportsWalking a d w h)
                = Inr ((0.035 * w + (s * 0.278)\<^sup>2 / (h / 100) * 0.029 * w) * d * 60))"
  using assms
  by (simp add: get_distance_def truediv_def and_then_def M_IN_KM_def H_IN_M_def
      CALORIES_WEIGHT_MULTIPLIER_1_def CALORIES_WEIGHT_MULTIPLIER_2_def
      KM_PER_H_IN_M_PER_S_def CM_IN_M_def)

theorem C4_walking_calories_witness:
  "(0::real) < 1 \<and> (0::real) < 180
   \<and> get_mean_speed (SportsWalking 9000 1 75 180) = Inr 5.85
   \<and> get_spent_calories (SportsWalking 9000 1 75 180)
       = Inr ((0.035 * 75 + (5.85 * 0.278)\<^sup>2 / (180 / 100) * 0.029 * 75) * 1 * 60)"
  using C4_walking_calories [of 1 180 9000 75]
  by (simp add: get_distance_def truediv_def and_then_def M_IN_KM_def H_IN_M_def
      CALORIES_WEIGHT_MULTIPLIER_1_def CALORIES_WEIGHT_MULTIPLIER_2_def
      KM_PER_H_IN_M_PER_S_def CM_IN_M_def)

text \<open>
  C5. For a \<open>Swimming\<close> object with duration \<open>d > 0\<close> and weight \<open>w\<close>,
  \<open>get_mean_speed\<close> returns a speed \<open>s\<close> and \<open>get_spent_calories\<close> returns
  \<open>(s + 1.1) * 2 * w * d\<close>. The package \<open>('SWM', [720, 1, 80, 25, 40])\<close> is read as
  \<open>Swimming(720, 1, 80, 25, 40)\<close>; its mean speed is 1 and its calories are 336.
\<close>

theorem C5_swimming_calories:
  assumes "0 < d"
  shows "(\<exists>s. get_mean_speed (Swimming a d w L n) = Inr s
            \<and> get_spent_calories (Swimming a d w L n) = Inr ((s + 1.1) * 2 * w * d))
       \<and> read_package ''SWM'' [720, 1, 80, 25, 40] = Inr (Swimming 720 1 80 25 40)
       \<and> get_mean_speed (Swimming 720 1 80 25 40) = Inr 1.0
       \<and> get_spent_calories (Swimming 720 1 80 25 40) = Inr 336.0"
proof -
  have general: "\<exists>s. get_mean_speed (Swimming a d w L n) = Inr s
            \<and> get_spent_calories (Swimming a d w L n) = Inr ((s + 1.1) * 2 * w * d)"
    using assms
    by (simp add: truediv_def and_then_def M_IN_KM_def
        CALORIES_MEAN_SPEED_ADDITION_def Swimming_CALORIES_MEAN_SPEED_MULTIPLIER_def)
  have package: "read_package ''SWM'' [720, 1, 80, 25, 40] = Inr (Swimming 720 1 80 25 40)"
    by (simp add: read_package_def workouts_def)
  have speed: "get_mean_speed (Swimming 720 1 80 25 40) = Inr 1.0"
    by (simp add: truediv_def M_IN_KM_def)
  have calories: "get_spent_calories (Swimming 720 1 80 25 40) = Inr 336.0"
    by (simp add: truediv_def and_then_def M_IN_KM_def
        CALORIES_MEAN_SPEED_ADDITION_def Swimming_CALORIES_MEAN_SPEED_MULTIPLIER_def)
  from general package speed calories show ?thesis
    by (intro conjI)
qed

theorem C5_swimming_calories_witness:
  "(0::real) < 4
   \<and> get_mean_speed (Swimming 340 4 60 50 20) = Inr 0.25
   \<and> get_spent_calories (Swimming 340 4 60 50 20) = Inr 648"
  using C5_swimming_calories [of 4 340 60 50 20]
  by (simp add: truediv_def and_then_def M_IN_KM_def
      CALORIES_MEAN_SPEED_ADDITION_def Swimming_CALORIES_MEAN_SPEED_MULTIPLIER_def)

section \<open>The validator\<close>

lemma workouts_None:
  "workouts c = None \<longleftrightarrow> c \<noteq> ''SWM'' \<and> c \<noteq> ''RUN'' \<and> c \<noteq> ''WLK''"
  by (simp add: workouts_def)

lemma check_data_validate_SWM: "check_data ''SWM'' data = validate ''SWM'' data"
  by (simp add: check_data_def validate_def and_then_def getitem_def workouts_def)

lemma check_data_validate_RUN: "check_data ''RUN'' data = validate ''RUN'' data"
  by (simp add: check_data_def validate_def and_then_def getitem_def workouts_def)

lemma check_data_validate_WLK: "check_data ''WLK'' data = validate ''WLK'' data"
  by (simp add: check_data_def validate_def and_then_def getitem_def workouts_def)

lemma check_data_validate_other:
  assumes "workouts c = None"
  shows "check_data c data = validate c data"
  using assms
  by (simp add: check_data_def validate_def and_then_def getitem_def workouts_None)

lemma check_data_pool_length:
  assumes "length data = 5" and "35 < data ! 2" and "data ! 2 < 610"
    and "\<not> (1 < data ! 3 \<and> data ! 3 < 1013)"
  shows "check_data ''SWM'' data = Inr (Some msg_pool_length)"
  using assms by (simp add: check_data_def and_then_def getitem_def)

lemma msg_weight_neq:
  "msg_weight \<noteq> msg_argument_count" "msg_weight \<noteq> msg_pool_length"
  "msg_weight \<noteq> msg_height" "msg_weight \<noteq> msg_workout_code"
  by (simp_all add: msg_argument_count_def msg_weight_def msg_pool_length_def
      msg_height_def msg_workout_code_def)

lemma msg_pool_length_neq:
  "msg_pool_length \<noteq> msg_argument_count" "msg_pool_length \<noteq> msg_weight"
  by (simp_all add: msg_argument_count_def msg_weight_def msg_pool_length_def)

text \<open>
  C6. On every input \<open>check_data\<close> returns what the five checks of the specification
  return when they are run in the order arity, weight range, pool length, height,
  unknown code and the first failing check decides: its message, without a later check
  being evaluated, and \<open>None\<close> when none fails. In particular, for \<open>SWM\<close> with five
  arguments and a weight inside (35, 610), a pool length outside (1, 1013) gives the
  pool-length message, which is neither the weight nor the arity message.
\<close>

theorem C6_checks_in_order:
  "check_data workout_type data = validate workout_type data
   \<and> (length data = 5 \<and> 35 < data ! 2 \<and> data ! 2 < 610
        \<and> \<not> (1 < data ! 3 \<and> data ! 3 < 1013)
      \<longrightarrow> check_data ''SWM'' data = Inr (Some msg_pool_length)
          \<and> msg_pool_length \<noteq> msg_weight \<and> msg_pool_length \<noteq> msg_argument_count)"
proof -
  have refines: "check_data workout_type data = validate workout_type data"
  proof (cases "workouts workout_type = None")
    case True
    then show ?thesis by (rule check_data_validate_other)
  next
    case False
    then have "workout_type = ''SWM'' \<or> workout_type = ''RUN'' \<or> workout_type = ''WLK''"
      by (simp add: workouts_None)
    then show ?thesis
    proof (elim disjE)
      assume "workout_type = ''SWM''"
      then show ?thesis by (simp only: check_data_validate_SWM)
    next
      assume "workout_type = ''RUN''"
      then show ?thesis by (simp only: check_data_validate_RUN)
    next
      assume "workout_type = ''WLK''"
      then show ?thesis by (simp only: check_data_validate_WLK)
    qed
  qed
  have pool: "length data = 5 \<and> 35 < data ! 2 \<and> data ! 2 < 610
        \<and> \<not> (1 < data ! 3 \<and> data ! 3 < 1013)
      \<longrightarrow> check_data ''SWM'' data = Inr (Some msg_pool_length)
          \<and> msg_pool_length \<noteq> msg_weight \<and> msg_pool_length \<noteq> msg_argument_count"
  proof (intro impI conjI)
    assume a: "length data = 5 \<and> 35 < data ! 2 \<and> data ! 2 < 610
        \<and> \<not> (1 < data ! 3 \<and> data ! 3 < 1013)"
    then show "check_data ''SWM'' data = Inr (Some msg_pool_length)"
      by (intro check_data_pool_length) (elim conjE, assumption)+
  next
    show "msg_pool_length \<noteq> msg_weight" by (rule msg_pool_length_neq)
  next
    show "msg_pool_length \<noteq> msg_argument_count" by (rule msg_pool_length_neq)
  qed
  from refines pool show ?thesis by (rule conjI)
qed

theorem C6_checks_in_order_witness:
  "check_data ''SWM'' [720, 1, 80, 1013, 40] = validate ''SWM'' [720, 1, 80, 1013, 40]
   \<and> check_data ''SWM'' [720, 1, 80, 1013, 40] = Inr (Some msg_pool_length)
   \<and> check_data ''RUN'' [15000] = Inr (Some msg_argument_count)
   \<and> validate ''RUN'' [15000] = Inr (Some msg_argument_count)"
  using C6_checks_in_order [of "''SWM''" "[720, 1, 80, 1013, 40]"]
    C6_checks_in_order [of "''RUN''" "[15000]"]
  by (simp add: validate_def and_then_def getitem_def)

text \<open>
  C7. For a recognised code with the right number of arguments, \<open>check_data\<close> returns
  the weight message exactly when \<open>data[2]\<close> is not strictly between 35 and 610. The
  weights 35 and 610 are rejected; 35.01 and 609.99 pass every check.
\<close>

theorem C7_weight_range:
  assumes "workout_type = ''SWM'' \<and> length data = 5
         \<or> workout_type = ''RUN'' \<and> length data = 3
         \<or> workout_type = ''WLK'' \<and> length data = 4"
  shows "(check_data workout_type data = Inr (Some msg_weight)
            \<longleftrightarrow> \<not> (35 < data ! 2 \<and> data ! 2 < 610))
       \<and> check_data ''RUN'' [15000, 1, 35] = Inr (Some msg_weight)
       \<and> check_data ''RUN'' [15000, 1, 610] = Inr (Some msg_weight)
       \<and> check_data ''RUN'' [15000, 1, 35.01] = Inr None
       \<and> check_data ''RUN'' [15000, 1, 609.99] = Inr None"
proof -
  have swm: "check_data ''SWM'' data = Inr (Some msg_weight)
            \<longleftrightarrow> \<not> (35 < data ! 2 \<and> data ! 2 < 610)" if "length data = 5"
    using that msg_weight_neq
    by (simp add: check_data_def and_then_def getitem_def workouts_def eq_commute [of msg_weight])
  have run: "check_data ''RUN'' data = Inr (Some msg_weight)
            \<longleftrightarrow> \<not> (35 < data ! 2 \<and> data ! 2 < 610)" if "length data = 3"
    using that msg_weight_neq
    by (simp add: check_data_def and_then_def getitem_def workouts_def eq_commute [of msg_weight])
  have wlk: "check_data ''WLK'' data = Inr (Some msg_weight)
            \<longleftrightarrow> \<not> (35 < data ! 2 \<and> data ! 2 < 610)" if "length data = 4"
    using that msg_weight_neq
    by (simp add: check_data_def and_then_def getitem_def workouts_def eq_commute [of msg_weight])
  have general: "check_data workout_type data = Inr (Some msg_weight)
            \<longleftrightarrow> \<not> (35 < data ! 2 \<and> data ! 2 < 610)"
    using assms swm run wlk by (elim disjE conjE) (simp_all only:)
  have boundary:
    "check_data ''RUN'' [15000, 1, 35] = Inr (Some msg_weight)"
    "check_data ''RUN'' [15000, 1, 610] = Inr (Some msg_weight)"
    "check_data ''RUN'' [15000, 1, 35.01] = Inr None"
    "check_data ''RUN'' [15000, 1, 609.99] = Inr None"
    by (simp_all add: check_data_def and_then_def getitem_def workouts_def)
  from general boundary show ?thesis by (intro conjI)
qed

theorem C7_weight_range_witness:
  "length [720, 1, 35, 25, 40 :: real] = 5
   \<and> check_data ''SWM'' [720, 1, 35, 25, 40] = Inr (Some msg_weight)
   \<and> \<not> (35 < [720, 1, 35, 25, 40 :: real] ! 2 \<and> [720, 1, 35, 25, 40 :: real] ! 2 < 610)"
  using C7_weight_range [of "''SWM''" "[720, 1, 35, 25, 40]"]
  by simp

text \<open>
  C8. For a code that is not a key of \<open>workouts\<close>, the weight check at \<open>data[2]\<close> comes
  before the unknown-code check: a list with fewer than three elements makes \<open>check_data\<close>
  raise \<open>IndexError\<close>; with three or more elements a weight outside (35, 610) gives the
  weight message, and only a weight inside gives the unknown-code message.
\<close>

theorem C8_unknown_code_after_weight:
  assumes "workouts workout_type = None"
  shows "(length data < 3 \<longrightarrow> check_data workout_type data = Inl IndexError)
       \<and> (3 \<le> length data \<and> \<not> (35 < data ! 2 \<and> data ! 2 < 610)
            \<longrightarrow> check_data workout_type data = Inr (Some msg_weight))
       \<and> (3 \<le> length data \<and> 35 < data ! 2 \<and> data ! 2 < 610
            \<longrightarrow> check_data workout_type data = Inr (Some msg_workout_code))"
  using assms
  by (simp add: check_data_def and_then_def getitem_def workouts_None)

theorem C8_unknown_code_after_weight_witness:
  "workouts ''PLT'' = None
   \<and> check_data ''PLT'' [12000, 1] = Inl IndexError
   \<and> check_data ''PLT'' [12000, 1, 655] = Inr (Some msg_weight)
   \<and> check_data ''PLT'' [12000, 1, 60] = Inr (Some msg_workout_code)"
  using C8_unknown_code_after_weight [of "''PLT''" "[12000, 1]"]
    C8_unknown_code_after_weight [of "''PLT''" "[12000, 1, 655]"]
    C8_unknown_code_after_weight [of "''PLT''" "[12000, 1, 60]"]
  by (simp add: workouts_def)

section \<open>The printed line\<close>

lemma is_digit_digit_char: "n < 10 \<Longrightarrow> is_digit (digit_char n)"
proof -
  assume "n < 10"
  then have "n \<in> {0, 1, 2, 3, 4, 5, 6, 7, 8, 9}" by auto
  then show ?thesis
    by (auto simp add: is_digit_def digit_char_def)
qed

lemma digits_all_digit: "list_all is_digit (digits n)"
proof (induction n rule: digits.induct)
  case (1 n)
  show ?case
  proof (cases "n < 10")
    case True
    then show ?thesis by (simp add: is_digit_digit_char)
  next
    case False
    with 1 have "list_all is_digit (digits (n div 10))" by simp
    moreover have "is_digit (digit_char (n mod 10))" by (simp add: is_digit_digit_char)
    ultimately show ?thesis using False by (subst digits.simps) simp
  qed
qed

lemma digits_nonempty: "digits n \<noteq> []"
  by (subst digits.simps) simp

lemma minus_not_digit: "\<not> is_digit (CHR ''-'')"
  by (simp add: is_digit_def)

lemma three_decimals_body:
  assumes "ds \<noteq> []" and "list_all is_digit ds" and "list_all is_digit fr" and "length fr = 3"
  shows "three_decimals (ds @ ''.'' @ fr)" and "three_decimals (''-'' @ ds @ ''.'' @ fr)"
proof -
  obtain c cs where ds: "ds = c # cs" using assms(1) by (cases ds) auto
  with assms(2) have c: "c \<noteq> CHR ''-''" using minus_not_digit by auto
  have len: "length (ds @ ''.'' @ fr) - 4 = length ds" using assms(4) by simp
  have shape: "5 \<le> length (ds @ ''.'' @ fr)
         \<and> list_all is_digit (take (length ds) (ds @ ''.'' @ fr))
         \<and> (ds @ ''.'' @ fr) ! (length ds) = CHR ''.''
         \<and> list_all is_digit (drop (length ds + 1) (ds @ ''.'' @ fr))"
    using assms ds by (simp add: nth_append)
  show "three_decimals (ds @ ''.'' @ fr)"
    unfolding three_decimals_def Let_def using shape len c ds by simp
  show "three_decimals (''-'' @ ds @ ''.'' @ fr)"
    unfolding three_decimals_def Let_def using shape len by simp
qed

lemma three_decimals_format_3f: "three_decimals (format_3f x)"
proof -
  define n where "n = nat (round_half_even (\<bar>x\<bar> * 1000))"
  define fr where
    "fr = [digit_char (n div 100 mod 10), digit_char (n div 10 mod 10), digit_char (n mod 10)]"
  have fr: "list_all is_digit fr" "length fr = 3"
    by (simp_all add: fr_def is_digit_digit_char)
  have eq: "format_3f x = (if x < 0 then ''-'' else []) @ digits (n div 1000) @ ''.'' @ fr"
    by (simp add: format_3f_def Let_def n_def fr_def)
  show ?thesis
    using three_decimals_body [OF digits_nonempty digits_all_digit fr, of "n div 1000"]
    by (simp add: eq)
qed

lemma get_message_template:
  "get_message m =
     Inr (text_type @ training_type m
          @ text_duration @ format_3f (info_duration m)
          @ text_distance @ format_3f (distance m)
          @ text_speed @ format_3f (speed m)
          @ text_calories @ format_3f (calories m) @ ''.'')"
  by (simp add: get_message_def str_format_def message_template_def and_then_def asdict_def
      field_name_def field_spec_def format_value_def
      text_type_def text_duration_def text_distance_def text_speed_def text_calories_def)

text \<open>
  C9, as stated: \<open>get_message\<close> produces the line with the English labels. It does not:
  for the message of \<open>Running(15000, 1, 75)\<close> the result differs from that line, the
  labels of the source being Russian.
\<close>

theorem C9_english_line_counterexample:
  "get_message \<lparr>training_type = ''Running'', info_duration = 1, distance = 9.75,
                 speed = 9.75, calories = 797.805\<rparr>
   \<noteq> Inr (spec_line \<lparr>training_type = ''Running'', info_duration = 1, distance = 9.75,
                       speed = 9.75, calories = 797.805\<rparr>)"
  by (simp add: get_message_template spec_line_def text_type_def)

text \<open>
  C9, amended: for every \<open>InfoMessage\<close>, \<open>get_message\<close> returns one string built from
  the fixed template of the source: the Russian labels in the order type, duration,
  distance, mean speed, calories, the unit of the duration followed by a full stop, the
  training type as it is and each of the four numbers rendered with exactly three
  decimals.
\<close>

theorem C9_message_line:
  "get_message m =
     Inr (text_type @ training_type m
          @ text_duration @ format_3f (info_duration m)
          @ text_distance @ format_3f (distance m)
          @ text_speed @ format_3f (speed m)
          @ text_calories @ format_3f (calories m) @ ''.'')
   \<and> three_decimals (format_3f (info_duration m))
   \<and> three_decimals (format_3f (distance m))
   \<and> three_decimals (format_3f (speed m))
   \<and> three_decimals (format_3f (calories m))"
  using get_message_template [of m] three_decimals_format_3f by simp

theorem C9_message_line_witness:
  "get_message \<lparr>training_type = ''Swimming'', info_duration = 1, distance = 0.9936,
                 speed = 1, calories = 336\<rparr>
     = Inr (text_type @ ''Swimming'' @ text_duration @ ''1.000'' @ text_distance @ ''0.994''
            @ text_speed @ ''1.000'' @ text_calories @ ''336.000'' @ ''.'')
   \<and> three_decimals ''0.994''"
  using C9_message_line [of "\<lparr>training_type = ''Swimming'', info_duration = 1,
      distance = 0.9936, speed = 1, calories = 336\<rparr>"]
  by (simp add: format_3f_def round_half_even_def Let_def digit_char_def)

section \<open>Calories and weight\<close>







end
